theory Spec2Isabelle
  imports Main
begin

section \<open>Python values used by the client\<close>

text \<open>
  The exceptions that \<^verbatim>\<open>client.py\<close> raises, with their messages, and the
  failure of the external driver (whatever \<^verbatim>\<open>execute\<close> raises).
\<close>

datatype error =
    ValueError string
  | FileNotFoundError string
  | RemoteError string

text \<open>The character \<^verbatim>\<open>'\<close> of the f-strings.\<close>

abbreviation apos :: string where
  "apos \<equiv> [CHR 0x27]"

text \<open>
  An \<^verbatim>\<open>Optional[str]\<close> argument is a \<open>string option\<close>. Python's truth
  test (\<^verbatim>\<open>if table:\<close>, \<^verbatim>\<open>if not disk:\<close>) holds for a non-empty string only;
  an f-string renders \<^verbatim>\<open>None\<close> as the text \<^verbatim>\<open>None\<close>.
  \<^verbatim>\<open>backup_dir\<close> (an \<^verbatim>\<open>Optional[Path]\<close>) is held by its rendering
  \<^verbatim>\<open>str(backup_dir)\<close>: a \<^verbatim>\<open>pathlib.Path\<close> is always true and never renders as
  the empty string, so the truth test of the rendering is the truth test of the value,
  for a path and for a plain string alike.
\<close>

definition truthy :: "string option \<Rightarrow> bool" where
  "truthy v = (case v of None \<Rightarrow> False | Some s \<Rightarrow> s \<noteq> [])"

definition str_of :: "string option \<Rightarrow> string" where
  "str_of v = (case v of None \<Rightarrow> ''None'' | Some s \<Rightarrow> s)"

text \<open>\<^verbatim>\<open>sep.join(xs)\<close>.\<close>

fun join :: "string \<Rightarrow> string list \<Rightarrow> string" where
  "join sep [] = []"
| "join sep [x] = x"
| "join sep (x # y # ys) = x @ sep @ join sep (y # ys)"

text \<open>
  \<^verbatim>\<open>ignored_databases or [...]\<close> for an \<^verbatim>\<open>Optional[list[str]]\<close>: the right
  operand is taken when the left one is \<^verbatim>\<open>None\<close> or the empty list.
\<close>

definition py_or :: "string list option \<Rightarrow> string list \<Rightarrow> string list" where
  "py_or v d = (case v of None \<Rightarrow> d | Some xs \<Rightarrow> if xs = [] then d else xs)"

section \<open>Data model\<close>

text \<open>
  \<^verbatim>\<open>class BackupTarget(Enum)\<close>. The attribute \<^verbatim>\<open>backup_target\<close> is not
  checked to be a member of the enumeration (both \<^verbatim>\<open>match\<close> statements compare it
  with the three members), so a client may hold any other object: \<open>NotEnum v\<close>, where
  \<open>v\<close> is the rendering \<^verbatim>\<open>str(backup_target)\<close> of that object.
\<close>

datatype BackupTarget = FILE | DISK | S3

datatype target_value = Enum BackupTarget | NotEnum string

text \<open>
  Modelled from the spec: the classes \<^verbatim>\<open>Backup\<close> and \<^verbatim>\<open>FullBackup\<close> of
  \<^verbatim>\<open>clickhouse_backup.utils.datatypes\<close> are not among the sources. The spec says a
  Backup "identifies a backup artifact by a relative path string" and a FullBackup is "a
  Backup additionally usable as a base_backup reference"; the client reads nothing but
  \<^verbatim>\<open>.path\<close> from either, and the truth test \<^verbatim>\<open>if base_backup:\<close> is that of a
  plain object (true unless \<^verbatim>\<open>None\<close>). \<^verbatim>\<open>restore\<close> annotates
  \<^verbatim>\<open>base_backup\<close> as \<^verbatim>\<open>Optional[str]\<close> but documents it as "full backup for
  base" and hands it to \<^verbatim>\<open>_backup_command\<close>, which reads its \<^verbatim>\<open>.path\<close>; the
  model follows the use.
\<close>

record Backup =
  path :: string

type_synonym FullBackup = Backup

text \<open>
  The driver object \<^verbatim>\<open>ClickHouseClient(host, port, user, password)\<close>, and what
  the client does to the outside world: opening a connection, submitting a statement.
  Log lines are not modelled.
\<close>

record connection =
  conn_host :: string
  conn_port :: string
  conn_user :: string
  conn_password :: string

datatype event = Connect connection | Execute string

text \<open>The parameters of \<^verbatim>\<open>Client.__init__\<close>, and the object it builds.\<close>

record config =
  host :: string
  port :: string
  user :: string
  password :: string
  backup_target :: target_value
  backup_dir :: "string option"
  disk :: "string option"
  s3_endpoint :: "string option"
  s3_access_key_id :: "string option"
  s3_secret_access_key :: "string option"

record Client = config +
  client :: connection

text \<open>The defaults of the keyword parameters of \<^verbatim>\<open>__init__\<close>.\<close>

definition default_config :: config where
  "default_config =
     \<lparr>host = ''localhost'', port = ''9000'', user = ''default'', password = '''',
      backup_target = Enum FILE, backup_dir = None, disk = None, s3_endpoint = None,
      s3_access_key_id = None, s3_secret_access_key = None\<rparr>"

section \<open>Construction\<close>

text \<open>
  Lines 50 to 67 of \<^verbatim>\<open>__init__\<close>: the \<^verbatim>\<open>match\<close> on the target. \<open>isdir\<close> is
  \<^verbatim>\<open>os.path.isdir\<close> on the filesystem of the moment. \<open>None\<close>: nothing was raised.
\<close>

definition check_target :: "(string \<Rightarrow> bool) \<Rightarrow> config \<Rightarrow> error option" where
  "check_target isdir cfg =
     (case backup_target cfg of
        Enum FILE \<Rightarrow>
          if \<not> truthy (backup_dir cfg) then
            Some (ValueError ''backup_dir must be provided when using File backup target'')
          else if \<not> isdir (str_of (backup_dir cfg)) then
            Some (FileNotFoundError
              (''backup_dir '' @ str_of (backup_dir cfg) @ '' does not exist!''))
          else None
      | Enum DISK \<Rightarrow>
          if \<not> truthy (disk cfg) then
            Some (ValueError ''disk must be provided when using Disk backup target'')
          else None
      | Enum S3 \<Rightarrow>
          if \<not> truthy (s3_endpoint cfg) then
            Some (ValueError ''s3_endpoint must be provided when using S3 backup target'')
          else if \<not> truthy (s3_access_key_id cfg) then
            Some (ValueError ''s3_access_key_id must be provided when using S3 backup target'')
          else if \<not> truthy (s3_secret_access_key cfg) then
            Some (ValueError
              ''s3_secret_access_key must be provided when using S3 backup target'')
          else None
      | NotEnum v \<Rightarrow> None)"

text \<open>\<^verbatim>\<open>_connect\<close>: the driver object is built and the connection is on record.\<close>

definition connect ::
  "string \<Rightarrow> string \<Rightarrow> string \<Rightarrow> string \<Rightarrow> event list \<Rightarrow> connection \<times> event list" where
  "connect h p u pw tr =
     (let c = \<lparr>conn_host = h, conn_port = p, conn_user = u, conn_password = pw\<rparr>
      in (c, tr @ [Connect c]))"

text \<open>
  \<^verbatim>\<open>__init__\<close>: the result (the exception raised, or the object) and the events so
  far.
\<close>

definition init ::
  "(string \<Rightarrow> bool) \<Rightarrow> config \<Rightarrow> event list \<Rightarrow> (error + Client) \<times> event list" where
  "init isdir cfg tr =
     (case check_target isdir cfg of
        Some e \<Rightarrow> (Inl e, tr)
      | None \<Rightarrow>
          (case connect (host cfg) (port cfg) (user cfg) (password cfg) tr of
             (c, tr') \<Rightarrow>
               (Inr \<lparr>host = host cfg, port = port cfg, user = user cfg,
                     password = password cfg, backup_target = backup_target cfg,
                     backup_dir = backup_dir cfg, disk = disk cfg,
                     s3_endpoint = s3_endpoint cfg,
                     s3_access_key_id = s3_access_key_id cfg,
                     s3_secret_access_key = s3_secret_access_key cfg,
                     client = c\<rparr>, tr')))"

section \<open>Destination clause\<close>

text \<open>\<^verbatim>\<open>_get_backup_path\<close>.\<close>

definition get_backup_path :: "Client \<Rightarrow> string \<Rightarrow> error + string" where
  "get_backup_path self file_path =
     (case backup_target self of
        Enum FILE \<Rightarrow>
          Inr (''File('' @ apos @ str_of (backup_dir self) @ ''/'' @ file_path @ apos @ '')'')
      | Enum DISK \<Rightarrow>
          Inr (''Disk('' @ apos @ str_of (disk self) @ apos @ '', '' @ apos @ file_path
               @ apos @ '')'')
      | Enum S3 \<Rightarrow>
          Inr (''S3('' @ apos @ str_of (s3_endpoint self) @ ''/'' @ file_path @ apos @ '', ''
               @ apos @ str_of (s3_access_key_id self) @ apos @ '', ''
               @ apos @ str_of (s3_secret_access_key self) @ apos @ '')'')
      | NotEnum v \<Rightarrow> Inl (ValueError (''Invalid backup target: '' @ v)))"

section \<open>Statements\<close>

text \<open>
  Lines 137 to 157 of \<^verbatim>\<open>_backup_command\<close>: the statement, or the exception raised
  while it is assembled.
\<close>

definition backup_query ::
  "Client \<Rightarrow> Backup \<Rightarrow> bool \<Rightarrow> string option \<Rightarrow> string option \<Rightarrow> string option \<Rightarrow>
   string option \<Rightarrow> string option \<Rightarrow> string list option \<Rightarrow> FullBackup option \<Rightarrow>
   error + string" where
  "backup_query self bk is_backup table dictionary database temporary_table view
     ignored_databases base_backup =
     (let ignored = py_or ignored_databases
                      [''system'', ''INFORMATION_SCHEMA'', ''information_schema''];
          query = (if is_backup then ''BACKUP '' else ''RESTORE '')
      in
      case (if truthy table then Inr (query @ ''TABLE '' @ str_of table @ '' '')
            else if truthy dictionary then
              Inr (query @ ''DICTIONARY '' @ str_of dictionary @ '' '')
            else if truthy database then
              Inr (query @ ''DATABASE '' @ str_of database @ '' '')
            else if truthy temporary_table then
              Inr (query @ ''TEMPORARY TABLE '' @ str_of temporary_table @ '' '')
            else if truthy view then Inr (query @ ''VIEW '' @ str_of view @ '' '')
            else if length ignored = 0 then
              Inl (ValueError
                ''ignored_databases must contain at least one database e.g. system.'')
            else Inr (query @ ''ALL EXCEPT DATABASES '' @ join '', '' ignored @ '' ''))
      of
        Inl e \<Rightarrow> Inl e
      | Inr query1 \<Rightarrow>
          (case get_backup_path self (path bk) of
             Inl e \<Rightarrow> Inl e
           | Inr dest \<Rightarrow>
               (let query2 = query1 @ (if is_backup then ''TO'' else ''FROM'') @ '' ''
                             @ dest @ '' ''
                in
                case base_backup of
                  None \<Rightarrow> Inr query2
                | Some fb \<Rightarrow>
                    (case get_backup_path self (path fb) of
                       Inl e \<Rightarrow> Inl e
                     | Inr base_dest \<Rightarrow>
                         Inr (query2 @ ''SETTINGS base_backup = '' @ base_dest @ '' '')))))"

text \<open>
  \<^verbatim>\<open>self._client.execute(query)\<close>: \<open>drv\<close> is the session of the external
  driver, which answers a statement with rows or raises; the submission is on record.
\<close>

definition execute ::
  "(connection \<Rightarrow> string \<Rightarrow> error + 'r) \<Rightarrow> Client \<Rightarrow> string \<Rightarrow> event list \<Rightarrow>
   (error + 'r) \<times> event list" where
  "execute drv self query tr = (drv (client self) query, tr @ [Execute query])"

text \<open>\<^verbatim>\<open>_backup_command\<close>, whole.\<close>

definition backup_command ::
  "(connection \<Rightarrow> string \<Rightarrow> error + 'r) \<Rightarrow> Client \<Rightarrow> Backup \<Rightarrow> bool \<Rightarrow> string option \<Rightarrow>
   string option \<Rightarrow> string option \<Rightarrow> string option \<Rightarrow> string option \<Rightarrow>
   string list option \<Rightarrow> FullBackup option \<Rightarrow> event list \<Rightarrow> (error + 'r) \<times> event list" where
  "backup_command drv self bk is_backup table dictionary database temporary_table view
     ignored_databases base_backup tr =
     (case backup_query self bk is_backup table dictionary database temporary_table view
             ignored_databases base_backup of
        Inl e \<Rightarrow> (Inl e, tr)
      | Inr query \<Rightarrow> execute drv self query tr)"

text \<open>\<^verbatim>\<open>backup\<close> and \<^verbatim>\<open>restore\<close>.\<close>

definition backup ::
  "(connection \<Rightarrow> string \<Rightarrow> error + 'r) \<Rightarrow> Client \<Rightarrow> Backup \<Rightarrow> string option \<Rightarrow>
   string option \<Rightarrow> string option \<Rightarrow> string option \<Rightarrow> string option \<Rightarrow>
   string list option \<Rightarrow> FullBackup option \<Rightarrow> event list \<Rightarrow> (error + 'r) \<times> event list" where
  "backup drv self bk table dictionary database temporary_table view ignored_databases
     base_backup tr =
     backup_command drv self bk True table dictionary database temporary_table view
       ignored_databases base_backup tr"

definition restore ::
  "(connection \<Rightarrow> string \<Rightarrow> error + 'r) \<Rightarrow> Client \<Rightarrow> Backup \<Rightarrow> string option \<Rightarrow>
   string option \<Rightarrow> string option \<Rightarrow> string option \<Rightarrow> string option \<Rightarrow>
   string list option \<Rightarrow> FullBackup option \<Rightarrow> event list \<Rightarrow> (error + 'r) \<times> event list" where
  "restore drv self bk table dictionary database temporary_table view ignored_databases
     base_backup tr =
     backup_command drv self bk False table dictionary database temporary_table view
       ignored_databases base_backup tr"

text \<open>\<^verbatim>\<open>get_backup_status\<close>.\<close>

definition get_backup_status ::
  "(connection \<Rightarrow> string \<Rightarrow> error + 'r) \<Rightarrow> Client \<Rightarrow> event list \<Rightarrow>
   (error + 'r) \<times> event list" where
  "get_backup_status drv self tr = execute drv self ''SELECT * FROM `system`.backups'' tr"

section \<open>The specification's words\<close>

text \<open>
  Section 4.1 of the specification: a required parameter of the selected target is
  missing or empty (for File, also: the directory is not on the filesystem).
\<close>

definition required_missing :: "(string \<Rightarrow> bool) \<Rightarrow> config \<Rightarrow> bool" where
  "required_missing isdir cfg =
     (backup_target cfg = Enum FILE \<and>
        (\<not> truthy (backup_dir cfg) \<or> \<not> isdir (str_of (backup_dir cfg)))
      \<or> backup_target cfg = Enum DISK \<and> \<not> truthy (disk cfg)
      \<or> backup_target cfg = Enum S3 \<and>
        (\<not> truthy (s3_endpoint cfg) \<or> \<not> truthy (s3_access_key_id cfg)
         \<or> \<not> truthy (s3_secret_access_key cfg)))"

text \<open>
  Section 4.3, step 2: the five single-object parameters in priority order, each with
  its keyword; the clause is that of the first one given, and the all-except clause over
  the list \<open>ignored\<close> when none is.
\<close>

definition object_candidates ::
  "string option \<Rightarrow> string option \<Rightarrow> string option \<Rightarrow> string option \<Rightarrow> string option \<Rightarrow>
   (string \<times> string option) list" where
  "object_candidates table dictionary database temporary_table view =
     [(''TABLE'', table), (''DICTIONARY'', dictionary), (''DATABASE'', database),
      (''TEMPORARY TABLE'', temporary_table), (''VIEW'', view)]"

definition object_clause ::
  "string option \<Rightarrow> string option \<Rightarrow> string option \<Rightarrow> string option \<Rightarrow> string option \<Rightarrow>
   string list \<Rightarrow> string" where
  "object_clause table dictionary database temporary_table view ignored =
     (case find (\<lambda>kv. truthy (snd kv))
             (object_candidates table dictionary database temporary_table view) of
        Some kv \<Rightarrow> fst kv @ '' '' @ str_of (snd kv)
      | None \<Rightarrow> ''ALL EXCEPT DATABASES '' @ join '', '' ignored)"

text \<open>
  Section 4.3, step 4: the suffix for a base backup, empty when there is none (and left
  empty where the destination clause of the base backup cannot be built, which is where
  that of the backup itself cannot be built either).
\<close>

definition settings_clause :: "Client \<Rightarrow> FullBackup option \<Rightarrow> string" where
  "settings_clause self base_backup =
     (case base_backup of
        None \<Rightarrow> []
      | Some fb \<Rightarrow>
          (case get_backup_path self (path fb) of
             Inl e \<Rightarrow> []
           | Inr base_dest \<Rightarrow> ''SETTINGS base_backup = '' @ base_dest @ '' ''))"

section \<open>Example clients\<close>

text \<open>The clients of the specification's examples (section 8).\<close>

definition default_connection :: connection where
  "default_connection =
     \<lparr>conn_host = ''localhost'', conn_port = ''9000'', conn_user = ''default'',
      conn_password = ''''\<rparr>"

definition file_config :: config where
  "file_config = default_config\<lparr>backup_dir := Some ''/backups''\<rparr>"

definition disk_config :: config where
  "disk_config = default_config\<lparr>backup_target := Enum DISK, disk := Some ''backup_disk''\<rparr>"

definition s3_config :: config where
  "s3_config =
     default_config\<lparr>backup_target := Enum S3,
       s3_endpoint := Some ''https://s3.example.com/bucket'',
       s3_access_key_id := Some ''AK'', s3_secret_access_key := Some ''SK''\<rparr>"

definition file_client :: Client where
  "file_client =
     \<lparr>host = ''localhost'', port = ''9000'', user = ''default'', password = '''',
      backup_target = Enum FILE, backup_dir = Some ''/backups'', disk = None,
      s3_endpoint = None, s3_access_key_id = None, s3_secret_access_key = None,
      client = default_connection\<rparr>"

definition disk_client :: Client where
  "disk_client =
     file_client\<lparr>backup_target := Enum DISK, backup_dir := None,
       disk := Some ''backup_disk''\<rparr>"

definition s3_client :: Client where
  "s3_client =
     file_client\<lparr>backup_target := Enum S3, backup_dir := None,
       s3_endpoint := Some ''https://s3.example.com/bucket'',
       s3_access_key_id := Some ''AK'', s3_secret_access_key := Some ''SK''\<rparr>"

text \<open>A client whose target is the string \<^verbatim>\<open>'File'\<close>, not the member.\<close>

definition stray_client :: Client where
  "stray_client = file_client\<lparr>backup_target := NotEnum ''File''\<rparr>"

text \<open>A filesystem whose only directory is \<^verbatim>\<open>/backups\<close>.\<close>

definition only_backups :: "string \<Rightarrow> bool" where
  "only_backups d = (d = ''/backups'')"

text \<open>A stub session that answers every statement with the same rows.\<close>

definition stub :: "connection \<Rightarrow> string \<Rightarrow> error + string list" where
  "stub c q = Inr [''row1'', ''row2'']"

section \<open>Facts about the model\<close>

lemmas example_defs =
  default_config_def default_connection_def file_config_def disk_config_def s3_config_def
  file_client_def disk_client_def s3_client_def stray_client_def only_backups_def

lemma init_file_client:
  "init only_backups file_config [] = (Inr file_client, [Connect default_connection])"
  by (simp add: init_def check_target_def connect_def example_defs truthy_def str_of_def
      Let_def)

lemma init_disk_client:
  "init isdir disk_config [] = (Inr disk_client, [Connect default_connection])"
  by (simp add: init_def check_target_def connect_def example_defs truthy_def Let_def)

lemma init_s3_client:
  "init isdir s3_config [] = (Inr s3_client, [Connect default_connection])"
  by (simp add: init_def check_target_def connect_def example_defs truthy_def Let_def)

lemma init_stray_client:
  "init isdir (file_config\<lparr>backup_target := NotEnum ''File''\<rparr>) [] =
     (Inr stray_client, [Connect default_connection])"
  by (simp add: init_def check_target_def connect_def example_defs Let_def)

lemma file_client_path:
  "get_backup_path file_client p = Inr (''File('' @ apos @ ''/backups/'' @ p @ apos @ '')'')"
  by (simp add: get_backup_path_def example_defs str_of_def)

lemma disk_client_path:
  "get_backup_path disk_client p =
     Inr (''Disk('' @ apos @ ''backup_disk'' @ apos @ '', '' @ apos @  p @ apos @ '')'')"
  by (simp add: get_backup_path_def example_defs str_of_def)

lemma s3_client_path:
  "get_backup_path s3_client p =
     Inr (''S3('' @ apos @ ''https://s3.example.com/bucket/'' @ p @ apos @ '', '' @ apos
          @ ''AK'' @ apos @ '', '' @ apos @ ''SK'' @ apos @ '')'')"
  by (simp add: get_backup_path_def example_defs str_of_def)

lemma check_target_iff: "(check_target isdir cfg \<noteq> None) = required_missing isdir cfg"
  by (auto simp: check_target_def required_missing_def
      split: target_value.splits BackupTarget.splits)

lemma py_or_nonempty: "d \<noteq> [] \<Longrightarrow> py_or v d \<noteq> []"
  by (simp add: py_or_def split: option.splits)

lemma get_backup_path_same_target:
  "get_backup_path self p = Inr dest \<Longrightarrow> \<exists>dest'. get_backup_path self p' = Inr dest'"
  by (auto simp: get_backup_path_def split: target_value.splits BackupTarget.splits)

lemma backup_query_shape:
  assumes "get_backup_path self (path bk) = Inr dest"
  shows "backup_query self bk is_backup table dictionary database temporary_table view
       ignored_databases base_backup =
     Inr ((if is_backup then ''BACKUP '' else ''RESTORE '')
          @ object_clause table dictionary database temporary_table view
              (py_or ignored_databases
                 [''system'', ''INFORMATION_SCHEMA'', ''information_schema''])
          @ '' '' @ (if is_backup then ''TO'' else ''FROM'') @ '' '' @ dest @ '' ''
          @ settings_clause self base_backup)"
proof -
  have ne: "py_or ignored_databases
                 [''system'', ''INFORMATION_SCHEMA'', ''information_schema''] \<noteq> []"
    by (rule py_or_nonempty) simp
  show ?thesis
  proof (cases base_backup)
    case None
    then show ?thesis using assms ne
      by (simp add: backup_query_def object_clause_def object_candidates_def
          settings_clause_def Let_def)
  next
    case (Some fb)
    obtain bd where "get_backup_path self (path fb) = Inr bd"
      using get_backup_path_same_target [OF assms] by blast
    then show ?thesis using assms ne Some
      by (simp add: backup_query_def object_clause_def object_candidates_def
          settings_clause_def Let_def)
  qed
qed

lemma backup_query_fails:
  assumes "get_backup_path self (path bk) = Inl e"
  shows "backup_query self bk is_backup table dictionary database temporary_table view
       ignored_databases base_backup = Inl e"
proof -
  have ne: "py_or ignored_databases
                 [''system'', ''INFORMATION_SCHEMA'', ''information_schema''] \<noteq> []"
    by (rule py_or_nonempty) simp
  show ?thesis using assms ne
    by (simp add: backup_query_def Let_def)
qed

lemma backup_command_shape:
  assumes "get_backup_path self (path bk) = Inr dest"
    and "q = (if is_backup then ''BACKUP '' else ''RESTORE '')
          @ object_clause table dictionary database temporary_table view
              (py_or ignored_databases
                 [''system'', ''INFORMATION_SCHEMA'', ''information_schema''])
          @ '' '' @ (if is_backup then ''TO'' else ''FROM'') @ '' '' @ dest @ '' ''
          @ settings_clause self base_backup"
  shows "backup_command drv self bk is_backup table dictionary database temporary_table
       view ignored_databases base_backup tr = (drv (client self) q, tr @ [Execute q])"
  using backup_query_shape [OF assms(1)] assms(2)
  by (simp add: backup_command_def execute_def)

section \<open>The claims\<close>

text \<open>
  C1. The claim: a backup or restore call with none of the five single-object parameters
  and an explicit empty ignored-databases list fails with an invalid-operation error
  before any statement is submitted. The code replaces an empty list by the default
  list in its first line, so its own check of the length never fires: on the File
  client of the examples, a backup of \<^verbatim>\<open>2024\<close> with \<^verbatim>\<open>ignored_databases=[]\<close>
  submits the all-except statement over the default list and returns the session's
  answer.
\<close>

theorem empty_ignored_list_is_submitted:
  "backup drv file_client \<lparr>path = ''2024''\<rparr> None None None None None (Some []) None tr =
     (drv default_connection
        ''BACKUP ALL EXCEPT DATABASES system, INFORMATION_SCHEMA, information_schema TO File('/backups/2024') '',
      tr @ [Execute
        ''BACKUP ALL EXCEPT DATABASES system, INFORMATION_SCHEMA, information_schema TO File('/backups/2024') ''])"
  by (simp add: backup_def backup_command_def backup_query_def execute_def
      get_backup_path_def py_or_def example_defs str_of_def truthy_def)

text \<open>
  C2. Whatever combination of the five single-object parameters a call supplies, for
  backup and restore alike, nothing is raised while the statement is assembled (as long
  as the destination clause can be built): the statement is submitted, and it holds one
  object clause, between the keyword and \<^verbatim>\<open>TO\<close>/\<^verbatim>\<open>FROM\<close>, which is that of the
  first parameter given in the order table, dictionary, database, temporary table,
  view, and the all-except clause when none is given. (The list of the all-except
  clause is the one supplied, or the default list when none or an empty one is.)
\<close>

theorem object_clause_by_priority:
  "get_backup_path self (path bk) = Inr dest \<Longrightarrow>
   \<exists>q. q = (if is_backup then ''BACKUP '' else ''RESTORE '')
            @ object_clause table dictionary database temporary_table view
                (py_or ignored_databases
                   [''system'', ''INFORMATION_SCHEMA'', ''information_schema''])
            @ '' '' @ (if is_backup then ''TO'' else ''FROM'') @ '' '' @ dest @ '' ''
            @ settings_clause self base_backup \<and>
       backup_command drv self bk is_backup table dictionary database temporary_table view
           ignored_databases base_backup tr =
         (drv (client self) q, tr @ [Execute q])"
proof -
  assume d: "get_backup_path self (path bk) = Inr dest"
  let ?q = "(if is_backup then ''BACKUP '' else ''RESTORE '')
            @ object_clause table dictionary database temporary_table view
                (py_or ignored_databases
                   [''system'', ''INFORMATION_SCHEMA'', ''information_schema''])
            @ '' '' @ (if is_backup then ''TO'' else ''FROM'') @ '' '' @ dest @ '' ''
            @ settings_clause self base_backup"
  have "backup_command drv self bk is_backup table dictionary database temporary_table view
           ignored_databases base_backup tr =
         (drv (client self) ?q, tr @ [Execute ?q])"
    by (rule backup_command_shape [OF d refl])
  then show ?thesis
    by - (rule exI [of _ ?q], rule conjI, rule refl, assumption)
qed

theorem object_clause_by_priority_witness:
  "get_backup_path file_client (path \<lparr>path = ''2024''\<rparr>) = Inr ''File('/backups/2024')'' \<and>
   backup_command stub file_client \<lparr>path = ''2024''\<rparr> True (Some ''t'') (Some ''d'') None
       None (Some ''v'') None None [] =
     (Inr [''row1'', ''row2''], [Execute ''BACKUP TABLE t TO File('/backups/2024') '']) \<and>
   backup_command stub file_client \<lparr>path = ''2024''\<rparr> False None (Some '''') None
       (Some ''tmp'') (Some ''v'') None None [] =
     (Inr [''row1'', ''row2''],
      [Execute ''RESTORE TEMPORARY TABLE tmp FROM File('/backups/2024') ''])"
proof -
  have h: "get_backup_path file_client (path \<lparr>path = ''2024''\<rparr>) =
      Inr ''File('/backups/2024')''"
    by (simp add: file_client_path)
  show ?thesis
    using h
      object_clause_by_priority [OF h, of True "Some ''t''" "Some ''d''" None None
        "Some ''v''" None None stub "[]"]
      object_clause_by_priority [OF h, of False None "Some ''''" None "Some ''tmp''"
        "Some ''v''" None None stub "[]"]
    by (simp add: object_clause_def object_candidates_def settings_clause_def truthy_def
        str_of_def stub_def)
qed

text \<open>
  C3. When a required parameter of the selected target is missing or empty (File: no
  backup directory, or the directory is not on the filesystem; Disk: no disk name; S3:
  endpoint, access key or secret key missing), construction raises, a not-found error
  when the File directory is given but absent and a configuration error otherwise, and
  the events are as they were: no connection was opened. In every other case
  construction succeeds and opens the connection, whatever the parameters of the other
  targets are: they are not read.
\<close>

theorem construction_fails_before_connecting:
  "(required_missing isdir cfg \<longrightarrow>
      (\<exists>msg. init isdir cfg tr =
         (Inl (if backup_target cfg = Enum FILE \<and> truthy (backup_dir cfg)
               then FileNotFoundError msg else ValueError msg), tr))) \<and>
   (\<not> required_missing isdir cfg \<longrightarrow>
      (\<exists>self. init isdir cfg tr =
         (Inr self,
          tr @ [Connect \<lparr>conn_host = host cfg, conn_port = port cfg, conn_user = user cfg,
                         conn_password = password cfg\<rparr>])))"
proof (intro conjI impI)
  assume "required_missing isdir cfg"
  then show "\<exists>msg. init isdir cfg tr =
         (Inl (if backup_target cfg = Enum FILE \<and> truthy (backup_dir cfg)
               then FileNotFoundError msg else ValueError msg), tr)"
    by (auto simp: required_missing_def init_def check_target_def)
next
  assume "\<not> required_missing isdir cfg"
  then have "check_target isdir cfg = None"
    using check_target_iff [of isdir cfg] by simp
  then show "\<exists>self. init isdir cfg tr =
         (Inr self,
          tr @ [Connect \<lparr>conn_host = host cfg, conn_port = port cfg, conn_user = user cfg,
                         conn_password = password cfg\<rparr>])"
    by (simp add: init_def connect_def Let_def)
qed

theorem construction_fails_before_connecting_witness:
  "required_missing only_backups default_config \<and>
   (\<exists>msg. init only_backups default_config [] = (Inl (ValueError msg), [])) \<and>
   required_missing only_backups (default_config\<lparr>backup_dir := Some ''/nowhere''\<rparr>) \<and>
   (\<exists>msg. init only_backups (default_config\<lparr>backup_dir := Some ''/nowhere''\<rparr>) [] =
      (Inl (FileNotFoundError msg), [])) \<and>
   required_missing only_backups (disk_config\<lparr>disk := Some ''''\<rparr>) \<and>
   (\<exists>msg. init only_backups (disk_config\<lparr>disk := Some ''''\<rparr>) [] =
      (Inl (ValueError msg), [])) \<and>
   required_missing only_backups (s3_config\<lparr>s3_secret_access_key := None\<rparr>) \<and>
   (\<exists>msg. init only_backups (s3_config\<lparr>s3_secret_access_key := None\<rparr>) [] =
      (Inl (ValueError msg), [])) \<and>
   \<not> required_missing only_backups disk_config \<and>
   (\<exists>self. init only_backups disk_config [] = (Inr self, [Connect default_connection]))"
proof -
  have a: "required_missing only_backups default_config"
    by (simp add: required_missing_def example_defs truthy_def)
  have b: "required_missing only_backups (default_config\<lparr>backup_dir := Some ''/nowhere''\<rparr>)"
    by (simp add: required_missing_def example_defs truthy_def str_of_def)
  have c: "required_missing only_backups (disk_config\<lparr>disk := Some ''''\<rparr>)"
    by (simp add: required_missing_def example_defs truthy_def)
  have d: "required_missing only_backups (s3_config\<lparr>s3_secret_access_key := None\<rparr>)"
    by (simp add: required_missing_def example_defs truthy_def)
  have e: "\<not> required_missing only_backups disk_config"
    by (simp add: required_missing_def example_defs truthy_def)
  show ?thesis
    using a b c d e
      construction_fails_before_connecting [of only_backups default_config "[]"]
      construction_fails_before_connecting
        [of only_backups "default_config\<lparr>backup_dir := Some ''/nowhere''\<rparr>" "[]"]
      construction_fails_before_connecting
        [of only_backups "disk_config\<lparr>disk := Some ''''\<rparr>" "[]"]
      construction_fails_before_connecting
        [of only_backups "s3_config\<lparr>s3_secret_access_key := None\<rparr>" "[]"]
      construction_fails_before_connecting [of only_backups disk_config "[]"]
    by (simp add: example_defs truthy_def)
qed

text \<open>
  C4. For a client that construction has accepted and any path, the destination clause
  is \<^verbatim>\<open>File('<backup_dir>/<path>')\<close> for the File target,
  \<^verbatim>\<open>Disk('<disk_name>', '<path>')\<close> for the Disk target and
  \<^verbatim>\<open>S3('<endpoint>/<path>', '<access_key>', '<secret_key>')\<close> for the S3 target:
  the configured values and the path stand in it as they are, nothing is escaped.
\<close>

theorem destination_clause_of_configured_client:
  "init isdir cfg tr = (Inr self, tr') \<Longrightarrow>
   (backup_target cfg = Enum FILE \<longrightarrow>
      (\<exists>dir. backup_dir cfg = Some dir \<and>
         get_backup_path self p = Inr (''File('' @ apos @ dir @ ''/'' @ p @ apos @ '')''))) \<and>
   (backup_target cfg = Enum DISK \<longrightarrow>
      (\<exists>d. disk cfg = Some d \<and>
         get_backup_path self p =
           Inr (''Disk('' @ apos @ d @ apos @ '', '' @ apos @ p @ apos @ '')''))) \<and>
   (backup_target cfg = Enum S3 \<longrightarrow>
      (\<exists>endpoint access_key secret_key.
         s3_endpoint cfg = Some endpoint \<and> s3_access_key_id cfg = Some access_key \<and>
         s3_secret_access_key cfg = Some secret_key \<and>
         get_backup_path self p =
           Inr (''S3('' @ apos @ endpoint @ ''/'' @ p @ apos @ '', '' @ apos @ access_key
                @ apos @ '', '' @ apos @ secret_key @ apos @ '')'')))"
  by (auto simp: init_def check_target_def connect_def Let_def get_backup_path_def
      truthy_def str_of_def split: option.splits if_splits)

theorem destination_clause_of_configured_client_witness:
  "init only_backups file_config [] = (Inr file_client, [Connect default_connection]) \<and>
   get_backup_path file_client ''2024'' = Inr ''File('/backups/2024')'' \<and>
   init only_backups disk_config [] = (Inr disk_client, [Connect default_connection]) \<and>
   get_backup_path disk_client ''2024'' = Inr ''Disk('backup_disk', '2024')'' \<and>
   init only_backups s3_config [] = (Inr s3_client, [Connect default_connection]) \<and>
   get_backup_path s3_client ''2024'' =
     Inr ''S3('https://s3.example.com/bucket/2024', 'AK', 'SK')''"
  using destination_clause_of_configured_client [OF init_file_client, of "''2024''"]
    destination_clause_of_configured_client [OF init_disk_client, of "''2024''"]
    destination_clause_of_configured_client [OF init_s3_client, of "''2024''"]
    init_file_client init_disk_client [of only_backups] init_s3_client [of only_backups]
  by (simp add: example_defs)

text \<open>
  C5. A backup call with no single-object parameter and no ignored-databases list
  submits a statement that begins
  \<^verbatim>\<open>BACKUP ALL EXCEPT DATABASES system, INFORMATION_SCHEMA, information_schema TO\<close>
  and goes on with the destination clause of the backup's path: the ignored list is the
  default one.
\<close>

theorem default_ignored_databases:
  "\<not> truthy table \<Longrightarrow> \<not> truthy dictionary \<Longrightarrow> \<not> truthy database \<Longrightarrow>
   \<not> truthy temporary_table \<Longrightarrow> \<not> truthy view \<Longrightarrow>
   get_backup_path self (path bk) = Inr dest \<Longrightarrow>
   \<exists>rest.
     backup drv self bk table dictionary database temporary_table view None base_backup tr =
       (drv (client self)
          (''BACKUP ALL EXCEPT DATABASES system, INFORMATION_SCHEMA, information_schema TO ''
           @ dest @ rest),
        tr @ [Execute
          (''BACKUP ALL EXCEPT DATABASES system, INFORMATION_SCHEMA, information_schema TO ''
           @ dest @ rest)])"
proof -
  assume h: "\<not> truthy table" "\<not> truthy dictionary" "\<not> truthy database"
    "\<not> truthy temporary_table" "\<not> truthy view"
    and d: "get_backup_path self (path bk) = Inr dest"
  have "backup drv self bk table dictionary database temporary_table view None base_backup tr =
       (drv (client self)
          (''BACKUP ALL EXCEPT DATABASES system, INFORMATION_SCHEMA, information_schema TO ''
           @ dest @ ('' '' @ settings_clause self base_backup)),
        tr @ [Execute
          (''BACKUP ALL EXCEPT DATABASES system, INFORMATION_SCHEMA, information_schema TO ''
           @ dest @ ('' '' @ settings_clause self base_backup))])"
    unfolding backup_def
    by (rule backup_command_shape [OF d])
       (simp add: h object_clause_def object_candidates_def py_or_def)
  then show ?thesis by blast
qed

theorem default_ignored_databases_witness:
  "\<not> truthy None \<and> \<not> truthy (Some '''') \<and>
   get_backup_path disk_client (path \<lparr>path = ''2024''\<rparr>) = Inr ''Disk('backup_disk', '2024')'' \<and>
   (\<exists>rest.
      backup stub disk_client \<lparr>path = ''2024''\<rparr> None None (Some '''') None None None None [] =
       (Inr [''row1'', ''row2''],
        [Execute
          (''BACKUP ALL EXCEPT DATABASES system, INFORMATION_SCHEMA, information_schema TO Disk('backup_disk', '2024')''
           @ rest)]))"
proof -
  have n: "\<not> truthy None" and e: "\<not> truthy (Some '''')"
    by (simp_all add: truthy_def)
  have d: "get_backup_path disk_client (path \<lparr>path = ''2024''\<rparr>) =
      Inr ''Disk('backup_disk', '2024')''"
    by (simp add: disk_client_path)
  show ?thesis
    using n e d default_ignored_databases [OF n n e n n d, of stub None "[]"]
    by (simp add: stub_def)
qed

text \<open>
  C6. A backup call with a database given, neither a table nor a dictionary given and no
  base backup submits \<^verbatim>\<open>BACKUP DATABASE <database> TO\<close>, the destination clause of
  the backup's path and a blank, and nothing after it: there is no
  \<^verbatim>\<open>SETTINGS base_backup\<close> suffix.
\<close>

theorem backup_database_statement:
  "\<not> truthy table \<Longrightarrow> \<not> truthy dictionary \<Longrightarrow> truthy database \<Longrightarrow>
   get_backup_path self (path bk) = Inr dest \<Longrightarrow>
   backup drv self bk table dictionary database temporary_table view ignored_databases
       None tr =
     (drv (client self) (''BACKUP DATABASE '' @ str_of database @ '' TO '' @ dest @ '' ''),
      tr @ [Execute (''BACKUP DATABASE '' @ str_of database @ '' TO '' @ dest @ '' '')])"
proof -
  assume h: "\<not> truthy table" "\<not> truthy dictionary" "truthy database"
    and d: "get_backup_path self (path bk) = Inr dest"
  show ?thesis
    unfolding backup_def
    by (rule backup_command_shape [OF d])
       (simp add: h object_clause_def object_candidates_def settings_clause_def)
qed

theorem backup_database_statement_witness:
  "\<not> truthy None \<and> truthy (Some ''mydb'') \<and>
   get_backup_path file_client (path \<lparr>path = ''2024''\<rparr>) = Inr ''File('/backups/2024')'' \<and>
   backup stub file_client \<lparr>path = ''2024''\<rparr> None None (Some ''mydb'') None (Some ''v'')
       None None [] =
     (Inr [''row1'', ''row2''], [Execute ''BACKUP DATABASE mydb TO File('/backups/2024') ''])"
proof -
  have n: "\<not> truthy None" and m: "truthy (Some ''mydb'')"
    by (simp_all add: truthy_def)
  have d: "get_backup_path file_client (path \<lparr>path = ''2024''\<rparr>) =
      Inr ''File('/backups/2024')''"
    by (simp add: file_client_path)
  show ?thesis
    using n m d backup_database_statement [OF n n m d, of stub None "Some ''v''" None "[]"]
    by (simp add: stub_def str_of_def)
qed

text \<open>
  C7. A restore call with a table given and a base backup submits
  \<^verbatim>\<open>RESTORE TABLE <table> FROM <dest> SETTINGS base_backup = <base_dest>\<close> (and a
  closing blank), where \<^verbatim>\<open><dest>\<close> is the destination clause of the backup's path
  and \<^verbatim>\<open><base_dest>\<close> that of the base backup's path, from the same builder.
\<close>

theorem restore_table_with_base_backup:
  "truthy table \<Longrightarrow>
   get_backup_path self (path bk) = Inr dest \<Longrightarrow>
   get_backup_path self (path fb) = Inr base_dest \<Longrightarrow>
   restore drv self bk table dictionary database temporary_table view ignored_databases
       (Some fb) tr =
     (drv (client self)
        (''RESTORE TABLE '' @ str_of table @ '' FROM '' @ dest
         @ '' SETTINGS base_backup = '' @ base_dest @ '' ''),
      tr @ [Execute
        (''RESTORE TABLE '' @ str_of table @ '' FROM '' @ dest
         @ '' SETTINGS base_backup = '' @ base_dest @ '' '')])"
proof -
  assume h: "truthy table"
    and d: "get_backup_path self (path bk) = Inr dest"
    and b: "get_backup_path self (path fb) = Inr base_dest"
  show ?thesis
    unfolding restore_def
    by (rule backup_command_shape [OF d])
       (simp add: h b object_clause_def object_candidates_def settings_clause_def)
qed

theorem restore_table_with_base_backup_witness:
  "truthy (Some ''t'') \<and>
   get_backup_path s3_client (path \<lparr>path = ''2024''\<rparr>) =
     Inr ''S3('https://s3.example.com/bucket/2024', 'AK', 'SK')'' \<and>
   get_backup_path s3_client (path \<lparr>path = ''full''\<rparr>) =
     Inr ''S3('https://s3.example.com/bucket/full', 'AK', 'SK')'' \<and>
   restore stub s3_client \<lparr>path = ''2024''\<rparr> (Some ''t'') None None None None None
       (Some \<lparr>path = ''full''\<rparr>) [] =
     (Inr [''row1'', ''row2''],
      [Execute ''RESTORE TABLE t FROM S3('https://s3.example.com/bucket/2024', 'AK', 'SK') SETTINGS base_backup = S3('https://s3.example.com/bucket/full', 'AK', 'SK') ''])"
proof -
  have t: "truthy (Some ''t'')"
    by (simp add: truthy_def)
  have d: "get_backup_path s3_client (path \<lparr>path = ''2024''\<rparr>) =
      Inr ''S3('https://s3.example.com/bucket/2024', 'AK', 'SK')''"
    by (simp add: s3_client_path)
  have b: "get_backup_path s3_client (path \<lparr>path = ''full''\<rparr>) =
      Inr ''S3('https://s3.example.com/bucket/full', 'AK', 'SK')''"
    by (simp add: s3_client_path)
  show ?thesis
    using t d b
      restore_table_with_base_backup [OF t d b, of stub None None None None None "[]"]
    by (simp add: stub_def str_of_def)
qed

text \<open>
  C8. When the target is none of File, Disk and S3, building a destination clause raises
  the invalid-target error, and a backup or restore call of that client raises it too
  and leaves the events as they were: no statement was submitted.
\<close>

theorem unknown_target_submits_nothing:
  "backup_target self = NotEnum v \<Longrightarrow>
   get_backup_path self p = Inl (ValueError (''Invalid backup target: '' @ v)) \<and>
   backup_command drv self bk is_backup table dictionary database temporary_table view
       ignored_databases base_backup tr =
     (Inl (ValueError (''Invalid backup target: '' @ v)), tr)"
proof -
  assume t: "backup_target self = NotEnum v"
  have p: "get_backup_path self p' = Inl (ValueError (''Invalid backup target: '' @ v))"
    for p'
    using t by (simp add: get_backup_path_def)
  show ?thesis
    using p [of p] backup_query_fails [OF p [of "path bk"]]
    by (simp add: backup_command_def)
qed

theorem unknown_target_submits_nothing_witness:
  "init only_backups (file_config\<lparr>backup_target := NotEnum ''File''\<rparr>) [] =
     (Inr stray_client, [Connect default_connection]) \<and>
   backup_target stray_client = NotEnum ''File'' \<and>
   get_backup_path stray_client ''2024'' = Inl (ValueError ''Invalid backup target: File'') \<and>
   backup_command stub stray_client \<lparr>path = ''2024''\<rparr> True (Some ''t'') None None None
       None None None [] =
     (Inl (ValueError ''Invalid backup target: File''), [])"
proof -
  have t: "backup_target stray_client = NotEnum ''File''"
    by (simp add: example_defs)
  show ?thesis
    using t init_stray_client [of only_backups]
      unknown_target_submits_nothing [OF t, of "''2024''" stub "\<lparr>path = ''2024''\<rparr>" True
        "Some ''t''" None None None None None None "[]"]
    by simp
qed

text \<open>
  C9. A status read submits the one fixed query over the backup-status table and returns
  what the session answers to it, as it is.
\<close>

theorem status_read_is_pass_through:
  "get_backup_status drv self tr =
     (drv (client self) ''SELECT * FROM `system`.backups'',
      tr @ [Execute ''SELECT * FROM `system`.backups''])"
  by (simp add: get_backup_status_def execute_def)

text \<open>
  C10. When a backup call and a restore call of one client with the same arguments both
  succeed, the two statements submitted are the same text but for the keyword at the
  start, \<^verbatim>\<open>BACKUP\<close> against \<^verbatim>\<open>RESTORE\<close>, and the word before the destination
  clause, \<^verbatim>\<open>TO\<close> against \<^verbatim>\<open>FROM\<close>.
\<close>

theorem backup_and_restore_differ_in_keywords:
  "backup drv self bk table dictionary database temporary_table view ignored_databases
       base_backup tr = (Inr r, tr1) \<Longrightarrow>
   restore drv self bk table dictionary database temporary_table view ignored_databases
       base_backup tr = (Inr r', tr2) \<Longrightarrow>
   \<exists>obj dest rest.
     get_backup_path self (path bk) = Inr dest \<and>
     tr1 = tr @ [Execute (''BACKUP '' @ obj @ ''TO'' @ '' '' @ dest @ rest)] \<and>
     tr2 = tr @ [Execute (''RESTORE '' @ obj @ ''FROM'' @ '' '' @ dest @ rest)]"
proof -
  assume b: "backup drv self bk table dictionary database temporary_table view
       ignored_databases base_backup tr = (Inr r, tr1)"
    and r: "restore drv self bk table dictionary database temporary_table view
       ignored_databases base_backup tr = (Inr r', tr2)"
  obtain dest where d: "get_backup_path self (path bk) = Inr dest"
  proof (cases "get_backup_path self (path bk)")
    case (Inl e)
    from backup_query_fails [OF Inl] b have False
      by (simp add: backup_def backup_command_def)
    then show ?thesis ..
  next
    case (Inr dest)
    then show ?thesis by (rule that)
  qed
  let ?obj = "object_clause table dictionary database temporary_table view
      (py_or ignored_databases [''system'', ''INFORMATION_SCHEMA'', ''information_schema''])
      @ '' ''"
  let ?rest = "'' '' @ settings_clause self base_backup"
  have "tr1 = tr @ [Execute (''BACKUP '' @ ?obj @ ''TO'' @ '' '' @ dest @ ?rest)]"
    using b backup_query_shape [OF d, of True]
    by (simp add: backup_def backup_command_def execute_def)
  moreover have "tr2 = tr @ [Execute (''RESTORE '' @ ?obj @ ''FROM'' @ '' '' @ dest @ ?rest)]"
    using r backup_query_shape [OF d, of False]
    by (simp add: restore_def backup_command_def execute_def)
  ultimately show ?thesis using d by blast
qed

theorem backup_and_restore_differ_in_keywords_witness:
  "backup stub file_client \<lparr>path = ''2024''\<rparr> None None (Some ''mydb'') None None None
       (Some \<lparr>path = ''full''\<rparr>) [] =
     (Inr [''row1'', ''row2''],
      [Execute ''BACKUP DATABASE mydb TO File('/backups/2024') SETTINGS base_backup = File('/backups/full') '']) \<and>
   restore stub file_client \<lparr>path = ''2024''\<rparr> None None (Some ''mydb'') None None None
       (Some \<lparr>path = ''full''\<rparr>) [] =
     (Inr [''row1'', ''row2''],
      [Execute ''RESTORE DATABASE mydb FROM File('/backups/2024') SETTINGS base_backup = File('/backups/full') '']) \<and>
   (\<exists>obj dest rest.
      get_backup_path file_client (path \<lparr>path = ''2024''\<rparr>) = Inr dest \<and>
      [Execute ''BACKUP DATABASE mydb TO File('/backups/2024') SETTINGS base_backup = File('/backups/full') ''] =
        [] @ [Execute (''BACKUP '' @ obj @ ''TO'' @ '' '' @ dest @ rest)] \<and>
      [Execute ''RESTORE DATABASE mydb FROM File('/backups/2024') SETTINGS base_backup = File('/backups/full') ''] =
        [] @ [Execute (''RESTORE '' @ obj @ ''FROM'' @ '' '' @ dest @ rest)])"
proof -
  have b: "backup stub file_client \<lparr>path = ''2024''\<rparr> None None (Some ''mydb'') None None None
       (Some \<lparr>path = ''full''\<rparr>) [] =
     (Inr [''row1'', ''row2''],
      [Execute ''BACKUP DATABASE mydb TO File('/backups/2024') SETTINGS base_backup = File('/backups/full') ''])"
    by (simp add: backup_def backup_command_def backup_query_def execute_def
      get_backup_path_def py_or_def example_defs str_of_def truthy_def stub_def)
  have r: "restore stub file_client \<lparr>path = ''2024''\<rparr> None None (Some ''mydb'') None None None
       (Some \<lparr>path = ''full''\<rparr>) [] =
     (Inr [''row1'', ''row2''],
      [Execute ''RESTORE DATABASE mydb FROM File('/backups/2024') SETTINGS base_backup = File('/backups/full') ''])"
    by (simp add: restore_def backup_command_def backup_query_def execute_def
      get_backup_path_def py_or_def example_defs str_of_def truthy_def stub_def)
  from backup_and_restore_differ_in_keywords [OF b r] b r show ?thesis
    by blast
qed

end
